theory Spec2Isabelle
  imports Main
begin

section \<open>JavaScript values\<close>

text \<open>
  Snapshots, event payloads and stored drawing operations are untyped JavaScript values.
  An object is an association list of its own properties, in insertion order, with
  distinct keys. Numbers that arrive over the wire are finite; they are abstracted to
  integers, which keeps their truthiness (zero is falsy, everything else is truthy).
\<close>

datatype jsval =
    JUndefined
  | JNull
  | JBool bool
  | JNum int
  | JStr string
  | JArr "jsval list"
  | JObj "(string \<times> jsval) list"

datatype error = TypeError

text \<open>\<open>if (v)\<close>: the falsy values are undefined, null, false, 0 and the empty string.\<close>

fun truthy :: "jsval \<Rightarrow> bool" where
  "truthy JUndefined = False"
| "truthy JNull = False"
| "truthy (JBool b) = b"
| "truthy (JNum n) = (n \<noteq> 0)"
| "truthy (JStr s) = (s \<noteq> [])"
| "truthy (JArr xs) = True"
| "truthy (JObj ps) = True"

text \<open>
  \<open>data.k\<close> for the field names the server reads (\<open>point\<close>, \<open>points\<close>, \<open>path\<close>,
  \<open>x\<close>, \<open>y\<close>, \<open>canvasState\<close>). Reading a property of undefined or null throws a
  TypeError; an object yields the property or undefined; none of these names is a
  property of a boolean, a number, a string or an array, so those yield undefined.
\<close>

fun get_prop :: "jsval \<Rightarrow> string \<Rightarrow> error + jsval" where
  "get_prop JUndefined k = Inl TypeError"
| "get_prop JNull k = Inl TypeError"
| "get_prop (JObj ps) k = (case map_of ps k of None \<Rightarrow> Inr JUndefined | Some v \<Rightarrow> Inr v)"
| "get_prop v k = Inr JUndefined"

text \<open>\<open>obj[k] = v\<close> on an object: overwrite in place, or append a new property.\<close>

fun put_prop :: "(string \<times> jsval) list \<Rightarrow> string \<Rightarrow> jsval \<Rightarrow> (string \<times> jsval) list" where
  "put_prop [] k v = [(k, v)]"
| "put_prop ((k', v') # ps) k v = (if k' = k then (k, v) # ps else (k', v') # put_prop ps k v)"

text \<open>\<open>xs[i]\<close> on an array: undefined (here \<open>None\<close>) outside \<open>0 .. length - 1\<close>.\<close>

definition js_index :: "'a list \<Rightarrow> int \<Rightarrow> 'a option" where
  "js_index xs i = (if 0 \<le> i \<and> i < int (length xs) then Some (xs ! nat i) else None)"

text \<open>\<open>xs.slice(0, e)\<close>: a negative end counts from the end of the array.\<close>

definition slice_to :: "'a list \<Rightarrow> int \<Rightarrow> 'a list" where
  "slice_to xs e = (if e < 0 then take (nat (int (length xs) + e)) xs else take (nat e) xs)"

text \<open>\<open>xs.slice(s)\<close>: a negative start counts from the end of the array.\<close>

definition slice_from :: "'a list \<Rightarrow> int \<Rightarrow> 'a list" where
  "slice_from xs s = (if s < 0 then drop (nat (int (length xs) + s)) xs else drop (nat s) xs)"

section \<open>Drawing state manager\<close>

text \<open>
  One history entry: \<open>{state, timestamp}\<close>, and \<open>type: 'clear'\<close> on the entries pushed by
  \<open>clearCanvas\<close>.
\<close>

record history_entry =
  state :: jsval
  timestamp :: nat
  type :: "string option"

record room_state =
  canvasState :: jsval
  drawings :: "jsval list"
  history :: "history_entry list"
  historyIndex :: int
  createdAt :: nat

text \<open>
  The manager's only mutable field is the map \<open>rooms\<close>; \<open>maxHistorySize\<close> is set once
  in the constructor. Every reading of the clock (\<open>Date.now()\<close>) is a parameter of the
  operation that reads it, in the order of the reads.
\<close>

type_synonym DrawingStateManager = "string \<rightharpoonup> room_state"

definition maxHistorySize :: nat where
  "maxHistorySize = 100"

definition initRoom :: "DrawingStateManager \<Rightarrow> string \<Rightarrow> nat \<Rightarrow> room_state \<times> DrawingStateManager" where
  "initRoom m roomId now =
     (case m roomId of
        None \<Rightarrow>
          (let room = \<lparr>canvasState = JNull, drawings = [], history = [], historyIndex = - 1,
                       createdAt = now\<rparr>
           in (room, m(roomId \<mapsto> room)))
      | Some room \<Rightarrow> (room, m))"

definition getCanvasState :: "DrawingStateManager \<Rightarrow> string \<Rightarrow> nat \<Rightarrow> jsval \<times> DrawingStateManager" where
  "getCanvasState m roomId now = (let (room, m1) = initRoom m roomId now in (canvasState room, m1))"

definition setCanvasState ::
  "DrawingStateManager \<Rightarrow> string \<Rightarrow> jsval \<Rightarrow> nat \<Rightarrow> nat \<Rightarrow> DrawingStateManager" where
  "setCanvasState m roomId canvasDataURL now0 now1 =
     (let (room, m1) = initRoom m roomId now0;
          h1 = (if historyIndex room < int (length (history room)) - 1
                then slice_to (history room) (historyIndex room + 1)
                else history room);
          h2 = h1 @ [\<lparr>state = canvasDataURL, timestamp = now1, type = None\<rparr>];
          i2 = historyIndex room + 1;
          (h3, i3) = (if length h2 > maxHistorySize then (tl h2, i2 - 1) else (h2, i2))
      in m1(roomId \<mapsto> room\<lparr>history := h3, historyIndex := i3, canvasState := canvasDataURL\<rparr>))"

text \<open>
  \<open>addDrawing\<close> stores \<open>{...drawing, id, timestamp}\<close>; \<open>drawing\<close> is an object, given by
  its properties, and \<open>ident\<close> is the string built from the clock and \<open>Math.random()\<close>.
\<close>

definition addDrawing ::
  "DrawingStateManager \<Rightarrow> string \<Rightarrow> (string \<times> jsval) list \<Rightarrow> nat \<Rightarrow> string \<Rightarrow> nat
     \<Rightarrow> bool \<times> DrawingStateManager" where
  "addDrawing m roomId drawing now0 ident now1 =
     (let (room, m1) = initRoom m roomId now0;
          d1 = drawings room @
                 [JObj (put_prop (put_prop drawing ''id'' (JStr ident)) ''timestamp'' (JNum (int now1)))];
          d2 = (if length d1 > maxHistorySize * 2 then slice_from d1 (- int maxHistorySize) else d1)
      in (True, m1(roomId \<mapsto> room\<lparr>drawings := d2\<rparr>)))"

definition getDrawings :: "DrawingStateManager \<Rightarrow> string \<Rightarrow> jsval list" where
  "getDrawings m roomId = (case m roomId of None \<Rightarrow> [] | Some room \<Rightarrow> drawings room)"

text \<open>
  \<open>undo\<close> and \<open>redo\<close> return the value and the manager as it is left; reading
  \<open>.state\<close> of an entry that does not exist throws after the index has been moved.
\<close>

definition undo :: "DrawingStateManager \<Rightarrow> string \<Rightarrow> (error + jsval) \<times> DrawingStateManager" where
  "undo m roomId =
     (case m roomId of
        None \<Rightarrow> (Inr JNull, m)
      | Some room \<Rightarrow>
          if historyIndex room > 0 then
            (let room1 = room\<lparr>historyIndex := historyIndex room - 1\<rparr>
             in case js_index (history room1) (historyIndex room1) of
                  None \<Rightarrow> (Inl TypeError, m(roomId \<mapsto> room1))
                | Some previousState \<Rightarrow>
                    (Inr (state previousState),
                     m(roomId \<mapsto> room1\<lparr>canvasState := state previousState\<rparr>)))
          else (Inr JNull, m))"

definition redo :: "DrawingStateManager \<Rightarrow> string \<Rightarrow> (error + jsval) \<times> DrawingStateManager" where
  "redo m roomId =
     (case m roomId of
        None \<Rightarrow> (Inr JNull, m)
      | Some room \<Rightarrow>
          if historyIndex room < int (length (history room)) - 1 then
            (let room1 = room\<lparr>historyIndex := historyIndex room + 1\<rparr>
             in case js_index (history room1) (historyIndex room1) of
                  None \<Rightarrow> (Inl TypeError, m(roomId \<mapsto> room1))
                | Some nextState \<Rightarrow>
                    (Inr (state nextState),
                     m(roomId \<mapsto> room1\<lparr>canvasState := state nextState\<rparr>)))
          else (Inr JNull, m))"

definition clearCanvas :: "DrawingStateManager \<Rightarrow> string \<Rightarrow> nat \<Rightarrow> nat \<Rightarrow> bool \<times> DrawingStateManager" where
  "clearCanvas m roomId now0 now1 =
     (let (room, m1) = initRoom m roomId now0
      in (True,
          m1(roomId \<mapsto> room\<lparr>drawings := [], canvasState := JNull,
                history := history room @ [\<lparr>state = JNull, timestamp = now1, type = Some ''clear''\<rparr>],
                historyIndex := historyIndex room + 1\<rparr>)))"

definition deleteRoom :: "DrawingStateManager \<Rightarrow> string \<Rightarrow> bool \<times> DrawingStateManager" where
  "deleteRoom m roomId = (m roomId \<noteq> None, m(roomId := None))"

text \<open>
  A run of the store: the operations that change it, applied in order from the manager
  as the constructor leaves it (no room).
\<close>

datatype store_op =
    SetCanvasState string jsval nat nat
  | AddDrawing string "(string \<times> jsval) list" nat string nat
  | Undo string
  | Redo string
  | ClearCanvas string nat nat
  | GetCanvasState string nat
  | DeleteRoom string

fun store_step :: "DrawingStateManager \<Rightarrow> store_op \<Rightarrow> DrawingStateManager" where
  "store_step m (SetCanvasState r v t0 t1) = setCanvasState m r v t0 t1"
| "store_step m (AddDrawing r d t0 i t1) = snd (addDrawing m r d t0 i t1)"
| "store_step m (Undo r) = snd (undo m r)"
| "store_step m (Redo r) = snd (redo m r)"
| "store_step m (ClearCanvas r t0 t1) = snd (clearCanvas m r t0 t1)"
| "store_step m (GetCanvasState r t) = snd (getCanvasState m r t)"
| "store_step m (DeleteRoom r) = snd (deleteRoom m r)"

definition store_run :: "store_op list \<Rightarrow> DrawingStateManager" where
  "store_run ops = foldl store_step Map.empty ops"

section \<open>Room manager\<close>

text \<open>
  A user is the object built on connection. A room's \<open>users\<close> is a JavaScript \<open>Map\<close>:
  an association list in insertion order, where \<open>set\<close> overwrites in place or appends,
  \<open>delete\<close> removes the key and \<open>get\<close> looks it up. The fields \<open>id\<close> and
  \<open>createdAt\<close> of the source are \<open>user_id\<close>, \<open>room_id\<close> and \<open>room_createdAt\<close>
  here, apart from the identity function and the drawing room's field.
\<close>

record user =
  user_id :: string
  username :: string
  color :: string
  socketId :: string

record room =
  room_id :: string
  users :: "(string \<times> user) list"
  room_createdAt :: nat

type_synonym RoomManager = "string \<rightharpoonup> room"

fun map_set :: "('k \<times> 'v) list \<Rightarrow> 'k \<Rightarrow> 'v \<Rightarrow> ('k \<times> 'v) list" where
  "map_set [] k v = [(k, v)]"
| "map_set ((k', v') # ps) k v = (if k' = k then (k, v) # ps else (k', v') # map_set ps k v)"

definition map_delete :: "('k \<times> 'v) list \<Rightarrow> 'k \<Rightarrow> ('k \<times> 'v) list" where
  "map_delete ps k = filter (\<lambda>p. fst p \<noteq> k) ps"

definition createRoom :: "RoomManager \<Rightarrow> string \<Rightarrow> nat \<Rightarrow> room \<times> RoomManager" where
  "createRoom m roomId now =
     (case m roomId of
        None \<Rightarrow>
          (let r = \<lparr>room_id = roomId, users = [], room_createdAt = now\<rparr> in (r, m(roomId \<mapsto> r)))
      | Some r \<Rightarrow> (r, m))"

definition getRoom :: "RoomManager \<Rightarrow> string \<Rightarrow> nat \<Rightarrow> room \<times> RoomManager" where
  "getRoom m roomId now =
     (case m roomId of None \<Rightarrow> createRoom m roomId now | Some r \<Rightarrow> (r, m))"

definition addUser :: "RoomManager \<Rightarrow> string \<Rightarrow> user \<Rightarrow> nat \<Rightarrow> bool \<times> RoomManager" where
  "addUser m roomId u now =
     (let (r, m1) = getRoom m roomId now
      in (True, m1(roomId \<mapsto> r\<lparr>users := map_set (users r) (user_id u) u\<rparr>)))"

text \<open>A stored user is an object, hence truthy: \<open>if (user)\<close> asks whether the key is there.\<close>

definition removeUser :: "RoomManager \<Rightarrow> string \<Rightarrow> string \<Rightarrow> bool \<times> RoomManager" where
  "removeUser m roomId userId =
     (case m roomId of
        None \<Rightarrow> (False, m)
      | Some r \<Rightarrow>
          (case map_of (users r) userId of
             Some u \<Rightarrow> (True, m(roomId \<mapsto> r\<lparr>users := map_delete (users r) userId\<rparr>))
           | None \<Rightarrow> (False, m)))"

definition getUsers :: "RoomManager \<Rightarrow> string \<Rightarrow> user list" where
  "getUsers m roomId = (case m roomId of None \<Rightarrow> [] | Some r \<Rightarrow> map snd (users r))"

definition getUser :: "RoomManager \<Rightarrow> string \<Rightarrow> string \<Rightarrow> user option" where
  "getUser m roomId userId = (case m roomId of None \<Rightarrow> None | Some r \<Rightarrow> map_of (users r) userId)"

definition hasUser :: "RoomManager \<Rightarrow> string \<Rightarrow> string \<Rightarrow> bool" where
  "hasUser m roomId userId =
     (case m roomId of None \<Rightarrow> False | Some r \<Rightarrow> map_of (users r) userId \<noteq> None)"

section \<open>Server: the socket handlers\<close>

text \<open>
  The server holds the two managers, the colour counter and, inside socket.io, the
  sockets joined to each room. An emission names its audience as the code does:
  \<open>socket.emit\<close> (the socket itself), \<open>socket.to(room).emit\<close> (the room without the
  socket) and \<open>io.to(room).emit\<close> (the whole room).
\<close>

record server =
  roomManager :: RoomManager
  drawingStateManager :: DrawingStateManager
  colorIndex :: nat
  joined :: "string \<Rightarrow> string set"

datatype target = ToSocket string | ToRoomExcept string string | ToRoom string

type_synonym emission = "target \<times> string \<times> jsval list"

type_synonym outcome = "error option \<times> server \<times> emission list"

fun recipients :: "(string \<Rightarrow> string set) \<Rightarrow> target \<Rightarrow> string set" where
  "recipients j (ToSocket sid) = {sid}"
| "recipients j (ToRoomExcept r sid) = j r - {sid}"
| "recipients j (ToRoom r) = j r"

definition USER_COLORS :: "string list" where
  "USER_COLORS =
     [''#FF6B6B'', ''#4ECDC4'', ''#45B7D1'', ''#FFA07A'', ''#98D8C8'',
      ''#F7DC6F'', ''#BB8FCE'', ''#85C1E2'', ''#F8B739'', ''#52B788'']"

text \<open>The room every connection uses: \<open>const roomId = 'default'\<close>.\<close>

definition conn_roomId :: string where
  "conn_roomId = ''default''"

definition init_server :: server where
  "init_server =
     \<lparr>roomManager = Map.empty, drawingStateManager = Map.empty, colorIndex = 0,
      joined = (\<lambda>r. {})\<rparr>"

definition user_obj :: "user \<Rightarrow> jsval" where
  "user_obj u =
     JObj [(''id'', JStr (user_id u)), (''username'', JStr (username u)),
           (''color'', JStr (color u)), (''socketId'', JStr (socketId u))]"

text \<open>
  \<open>io.on('connection')\<close>: \<open>sid\<close> is \<open>socket.id\<close>, \<open>name\<close> the generated username;
  socket.io has already put the socket in the room named by its own id.
\<close>

definition on_connection :: "server \<Rightarrow> string \<Rightarrow> string \<Rightarrow> nat \<Rightarrow> nat \<Rightarrow> outcome" where
  "on_connection s sid name now0 now1 =
     (let userColor = USER_COLORS ! (colorIndex s mod length USER_COLORS);
          u = \<lparr>user_id = sid, username = name, color = userColor, socketId = sid\<rparr>;
          (_, rm) = addUser (roomManager s) conn_roomId u now0;
          j = (joined s)(sid := insert sid (joined s sid));
          j' = j(conn_roomId := insert sid (j conn_roomId));
          (cs, dsm) = getCanvasState (drawingStateManager s) conn_roomId now1
      in (None,
          s\<lparr>roomManager := rm, drawingStateManager := dsm, colorIndex := colorIndex s + 1,
            joined := j'\<rparr>,
          [(ToSocket sid, ''init'',
              [JObj [(''userId'', JStr sid), (''username'', JStr name),
                     (''color'', JStr userColor), (''canvasState'', cs)]]),
           (ToSocket sid, ''users'', [JArr (map user_obj (getUsers rm conn_roomId))]),
           (ToRoomExcept conn_roomId sid, ''user-joined'', [user_obj u])]))"

definition on_draw_start :: "server \<Rightarrow> string \<Rightarrow> jsval \<Rightarrow> nat \<Rightarrow> outcome" where
  "on_draw_start s userId data now =
     (case get_prop data ''point'' of
        Inl e \<Rightarrow> (Some e, s, [])
      | Inr point \<Rightarrow>
          (None, s,
           [(ToRoomExcept conn_roomId userId, ''draw-start'',
               [JObj [(''userId'', JStr userId), (''point'', point),
                      (''timestamp'', JNum (int now))]])]))"

definition on_draw_move :: "server \<Rightarrow> string \<Rightarrow> jsval \<Rightarrow> nat \<Rightarrow> outcome" where
  "on_draw_move s userId data now =
     (case get_prop data ''points'' of
        Inl e \<Rightarrow> (Some e, s, [])
      | Inr points \<Rightarrow>
          (None, s,
           [(ToRoomExcept conn_roomId userId, ''draw-move'',
               [JObj [(''userId'', JStr userId), (''points'', points),
                      (''timestamp'', JNum (int now))]])]))"

definition on_draw_end ::
  "server \<Rightarrow> string \<Rightarrow> jsval \<Rightarrow> nat \<Rightarrow> nat \<Rightarrow> nat \<Rightarrow> string \<Rightarrow> nat \<Rightarrow> outcome" where
  "on_draw_end s userId data now0 now1 now2 ident now3 =
     (case get_prop data ''path'' of
        Inl e \<Rightarrow> (Some e, s, [])
      | Inr path \<Rightarrow>
          (let (_, dsm) =
                 addDrawing (drawingStateManager s) conn_roomId
                   [(''userId'', JStr userId), (''path'', path), (''timestamp'', JNum (int now1))]
                   now2 ident now3
           in (None, s\<lparr>drawingStateManager := dsm\<rparr>,
               [(ToRoomExcept conn_roomId userId, ''draw-end'',
                   [JObj [(''userId'', JStr userId), (''path'', path),
                          (''timestamp'', JNum (int now0))]])])))"

definition on_cursor_move :: "server \<Rightarrow> string \<Rightarrow> jsval \<Rightarrow> outcome" where
  "on_cursor_move s userId data =
     (case get_prop data ''x'' of
        Inl e \<Rightarrow> (Some e, s, [])
      | Inr x \<Rightarrow>
          (case get_prop data ''y'' of
             Inl e \<Rightarrow> (Some e, s, [])
           | Inr y \<Rightarrow>
               (None, s,
                [(ToRoomExcept conn_roomId userId, ''cursor-move'',
                    [JObj [(''userId'', JStr userId), (''x'', x), (''y'', y)]])])))"

definition on_undo :: "server \<Rightarrow> string \<Rightarrow> jsval \<Rightarrow> nat \<Rightarrow> nat \<Rightarrow> outcome" where
  "on_undo s userId data now0 now1 =
     (case get_prop data ''canvasState'' of
        Inl e \<Rightarrow> (Some e, s, [])
      | Inr cs \<Rightarrow>
          (let dsm = (if truthy cs
                      then setCanvasState (drawingStateManager s) conn_roomId cs now0 now1
                      else drawingStateManager s)
           in (None, s\<lparr>drawingStateManager := dsm\<rparr>,
               [(ToRoom conn_roomId, ''undo'',
                   [JObj [(''userId'', JStr userId), (''canvasState'', cs)]])])))"

definition on_redo :: "server \<Rightarrow> string \<Rightarrow> jsval \<Rightarrow> nat \<Rightarrow> nat \<Rightarrow> outcome" where
  "on_redo s userId data now0 now1 =
     (case get_prop data ''canvasState'' of
        Inl e \<Rightarrow> (Some e, s, [])
      | Inr cs \<Rightarrow>
          (let dsm = (if truthy cs
                      then setCanvasState (drawingStateManager s) conn_roomId cs now0 now1
                      else drawingStateManager s)
           in (None, s\<lparr>drawingStateManager := dsm\<rparr>,
               [(ToRoom conn_roomId, ''redo'',
                   [JObj [(''userId'', JStr userId), (''canvasState'', cs)]])])))"

definition on_clear_canvas :: "server \<Rightarrow> string \<Rightarrow> nat \<Rightarrow> nat \<Rightarrow> outcome" where
  "on_clear_canvas s userId now0 now1 =
     (let (_, dsm) = clearCanvas (drawingStateManager s) conn_roomId now0 now1
      in (None, s\<lparr>drawingStateManager := dsm\<rparr>, [(ToRoom conn_roomId, ''clear-canvas'', [])]))"

definition on_ping :: "server \<Rightarrow> string \<Rightarrow> outcome" where
  "on_ping s userId = (None, s, [(ToSocket userId, ''pong'', [])])"

text \<open>
  \<open>socket.on('disconnect')\<close>: socket.io has taken the socket out of every room before
  the handler runs.
\<close>

definition on_disconnect :: "server \<Rightarrow> string \<Rightarrow> outcome" where
  "on_disconnect s userId =
     (let j = (\<lambda>r. joined s r - {userId});
          (_, rm) = removeUser (roomManager s) conn_roomId userId;
          remainingUsers = getUsers rm conn_roomId
      in (None, s\<lparr>roomManager := rm, joined := j\<rparr>,
          [(ToRoomExcept conn_roomId userId, ''user-left'', [JStr userId]),
           (ToRoom conn_roomId, ''users'', [JArr (map user_obj remainingUsers)])]))"

text \<open>The sockets that receive something from one handler run.\<close>

definition fanout :: "outcome \<Rightarrow> string set" where
  "fanout out =
     (case out of (e, s, ems) \<Rightarrow> \<Union> (set (map (\<lambda>em. recipients (joined s) (fst em)) ems)))"

section \<open>Invariants and example states\<close>

text \<open>The cursor bounds of one room's history, and a property holding in every room.\<close>

definition cursor_ok :: "room_state \<Rightarrow> bool" where
  "cursor_ok r \<longleftrightarrow>
     - 1 \<le> historyIndex r \<and> historyIndex r < int (length (history r)) \<and>
     (historyIndex r = - 1 \<longleftrightarrow> history r = [])"

definition all_rooms :: "(room_state \<Rightarrow> bool) \<Rightarrow> DrawingStateManager \<Rightarrow> bool" where
  "all_rooms P m \<longleftrightarrow> (\<forall>k r. m k = Some r \<longrightarrow> P r)"

text \<open>A room after two commits, \<open>A\<close> then \<open>B\<close>.\<close>

definition two_entries :: room_state where
  "two_entries =
     \<lparr>canvasState = JStr ''B'', drawings = [],
      history = [\<lparr>state = JStr ''A'', timestamp = 1, type = None\<rparr>,
                 \<lparr>state = JStr ''B'', timestamp = 3, type = None\<rparr>],
      historyIndex = 1, createdAt = 0\<rparr>"

definition alice :: user where
  "alice = \<lparr>user_id = ''s1'', username = ''HappyPanda1'', color = ''#FF6B6B'', socketId = ''s1''\<rparr>"

definition bob :: user where
  "bob = \<lparr>user_id = ''s2'', username = ''BoldFox2'', color = ''#4ECDC4'', socketId = ''s2''\<rparr>"

definition two_users :: RoomManager where
  "two_users =
     [''default'' \<mapsto>
        \<lparr>room_id = ''default'', users = [(''s1'', alice), (''s2'', bob)], room_createdAt = 0\<rparr>]"

text \<open>The server after the sockets \<open>s1\<close> and \<open>s2\<close> have connected, in this order.\<close>

definition two_clients :: server where
  "two_clients =
     fst (snd (on_connection (fst (snd (on_connection init_server ''s1'' ''HappyPanda1'' 0 0)))
                 ''s2'' ''BoldFox2'' 1 1))"

section \<open>The commit, undo, commit, redo scenario\<close>

text \<open>
  C1. From a manager with no room, commit \<open>A\<close>, commit \<open>B\<close>, undo, commit \<open>C\<close>, redo:
  the undo returns \<open>A\<close>, the redo returns null because the commit of \<open>C\<close> pruned \<open>B\<close>,
  and the room ends with the history \<open>[A, C]\<close> and the cursor at 1.
\<close>

theorem scenario_commit_undo_commit_redo:
  "(let m1 = setCanvasState Map.empty r A t0 t1;
        m2 = setCanvasState m1 r B t2 t3;
        (u, m3) = undo m2 r;
        m4 = setCanvasState m3 r C t4 t5;
        (v, m5) = redo m4 r
    in u = Inr A \<and> v = Inr JNull \<and>
       m5 r = Some \<lparr>canvasState = C, drawings = [],
                     history = [\<lparr>state = A, timestamp = t1, type = None\<rparr>,
                                \<lparr>state = C, timestamp = t5, type = None\<rparr>],
                     historyIndex = 1, createdAt = t0\<rparr>)"
  by (simp add: setCanvasState_def initRoom_def maxHistorySize_def slice_to_def undo_def redo_def
        js_index_def Let_def)

section \<open>Cursor bounds\<close>

lemma all_rooms_empty: "all_rooms P Map.empty"
  by (simp add: all_rooms_def)

lemma all_rooms_upd: "all_rooms P m \<Longrightarrow> P r \<Longrightarrow> all_rooms P (m(k \<mapsto> r))"
  by (simp add: all_rooms_def)

lemma all_rooms_del: "all_rooms P m \<Longrightarrow> all_rooms P (m(k := None))"
  by (simp add: all_rooms_def)

lemma all_rooms_get: "all_rooms P m \<Longrightarrow> m k = Some r \<Longrightarrow> P r"
  by (simp add: all_rooms_def)

lemma initRoom_cases:
  "initRoom m k t =
     (case m k of
        None \<Rightarrow>
          (\<lparr>canvasState = JNull, drawings = [], history = [], historyIndex = - 1, createdAt = t\<rparr>,
           m(k \<mapsto> \<lparr>canvasState = JNull, drawings = [], history = [], historyIndex = - 1,
                     createdAt = t\<rparr>))
      | Some r \<Rightarrow> (r, m))"
  by (simp add: initRoom_def Let_def split: option.splits)

lemma all_rooms_initRoom:
  assumes "all_rooms P m"
    and "P \<lparr>canvasState = JNull, drawings = [], history = [], historyIndex = - 1, createdAt = t\<rparr>"
  shows "P (fst (initRoom m k t)) \<and> all_rooms P (snd (initRoom m k t))"
  using assms by (auto simp: initRoom_cases all_rooms_upd all_rooms_get split: option.splits)

lemma cursor_ok_fresh:
  "cursor_ok \<lparr>canvasState = JNull, drawings = [], history = [], historyIndex = - 1, createdAt = t\<rparr>"
  by (simp add: cursor_ok_def)

lemma cursor_ok_commit:
  assumes "cursor_ok r"
  shows "cursor_ok
     (let h1 = (if historyIndex r < int (length (history r)) - 1
                then slice_to (history r) (historyIndex r + 1)
                else history r);
          h2 = h1 @ [e];
          i2 = historyIndex r + 1;
          (h3, i3) = (if length h2 > maxHistorySize then (tl h2, i2 - 1) else (h2, i2))
      in r\<lparr>history := h3, historyIndex := i3, canvasState := v\<rparr>)"
  using assms by (auto simp: cursor_ok_def Let_def slice_to_def maxHistorySize_def)

lemma cursor_ok_setCanvasState:
  assumes "all_rooms cursor_ok m"
  shows "all_rooms cursor_ok (setCanvasState m k v t0 t1)"
proof -
  obtain r m1 where i: "initRoom m k t0 = (r, m1)" by (cases "initRoom m k t0")
  with all_rooms_initRoom [OF assms cursor_ok_fresh, where k = k and t = t0]
  have "cursor_ok r" "all_rooms cursor_ok m1" by simp_all
  then show ?thesis
    using cursor_ok_commit [of r "\<lparr>state = v, timestamp = t1, type = None\<rparr>" v]
    by (simp add: setCanvasState_def i Let_def all_rooms_upd split: prod.splits if_splits)
qed

lemma cursor_ok_drawings: "cursor_ok (r\<lparr>drawings := d\<rparr>) = cursor_ok r"
  by (simp add: cursor_ok_def)

lemma cursor_ok_addDrawing:
  assumes "all_rooms cursor_ok m"
  shows "all_rooms cursor_ok (snd (addDrawing m k d t0 i t1))"
proof -
  obtain r m1 where i: "initRoom m k t0 = (r, m1)" by (cases "initRoom m k t0")
  with all_rooms_initRoom [OF assms cursor_ok_fresh, where k = k and t = t0]
  have "cursor_ok r" "all_rooms cursor_ok m1" by simp_all
  then show ?thesis
    by (simp add: addDrawing_def i Let_def all_rooms_upd cursor_ok_drawings)
qed

lemma cursor_ok_clear:
  "cursor_ok r \<Longrightarrow>
     cursor_ok (r\<lparr>drawings := [], canvasState := JNull, history := history r @ [e],
               historyIndex := historyIndex r + 1\<rparr>)"
  by (auto simp: cursor_ok_def)

lemma cursor_ok_clearCanvas:
  assumes "all_rooms cursor_ok m"
  shows "all_rooms cursor_ok (snd (clearCanvas m k t0 t1))"
proof -
  obtain r m1 where i: "initRoom m k t0 = (r, m1)" by (cases "initRoom m k t0")
  with all_rooms_initRoom [OF assms cursor_ok_fresh, where k = k and t = t0]
  have "cursor_ok r" "all_rooms cursor_ok m1" by simp_all
  then show ?thesis
    by (simp add: clearCanvas_def i all_rooms_upd cursor_ok_clear)
qed

lemma cursor_ok_getCanvasState:
  assumes "all_rooms cursor_ok m"
  shows "all_rooms cursor_ok (snd (getCanvasState m k t))"
  using all_rooms_initRoom [OF assms cursor_ok_fresh, where k = k and t = t]
  by (auto simp: getCanvasState_def split: prod.splits)

lemma cursor_ok_undo:
  assumes "all_rooms cursor_ok m"
  shows "all_rooms cursor_ok (snd (undo m k))"
proof (cases "m k")
  case None
  then show ?thesis using assms by (simp add: undo_def)
next
  case (Some r)
  with assms have ok: "cursor_ok r" by (rule all_rooms_get)
  have "cursor_ok (r\<lparr>historyIndex := historyIndex r - 1\<rparr>)"
    and "cursor_ok (r\<lparr>historyIndex := historyIndex r - 1, canvasState := v\<rparr>)"
    if "0 < historyIndex r" for v
    using ok that by (auto simp: cursor_ok_def)
  then show ?thesis
    using assms by (simp add: undo_def Some Let_def all_rooms_upd split: option.splits)
qed

lemma cursor_ok_redo:
  assumes "all_rooms cursor_ok m"
  shows "all_rooms cursor_ok (snd (redo m k))"
proof (cases "m k")
  case None
  then show ?thesis using assms by (simp add: redo_def)
next
  case (Some r)
  with assms have ok: "cursor_ok r" by (rule all_rooms_get)
  have "cursor_ok (r\<lparr>historyIndex := historyIndex r + 1\<rparr>)"
    and "cursor_ok (r\<lparr>historyIndex := historyIndex r + 1, canvasState := v\<rparr>)"
    if "historyIndex r < int (length (history r)) - 1" for v
    using ok that by (auto simp: cursor_ok_def)
  then show ?thesis
    using assms by (simp add: redo_def Some Let_def all_rooms_upd split: option.splits)
qed

lemma cursor_ok_deleteRoom:
  "all_rooms cursor_ok m \<Longrightarrow> all_rooms cursor_ok (snd (deleteRoom m k))"
  by (simp add: deleteRoom_def all_rooms_del)

lemma cursor_ok_step: "all_rooms cursor_ok m \<Longrightarrow> all_rooms cursor_ok (store_step m x)"
  by (cases x)
     (simp_all add: cursor_ok_setCanvasState cursor_ok_addDrawing cursor_ok_undo cursor_ok_redo
        cursor_ok_clearCanvas cursor_ok_getCanvasState cursor_ok_deleteRoom)

lemma cursor_ok_foldl:
  "all_rooms cursor_ok m \<Longrightarrow> all_rooms cursor_ok (foldl store_step m ops)"
  by (induction ops arbitrary: m) (simp_all add: cursor_ok_step)

lemma cursor_ok_run: "all_rooms cursor_ok (store_run ops)"
  unfolding store_run_def by (rule cursor_ok_foldl) (rule all_rooms_empty)

text \<open>
  C6. In every room of every manager that a sequence of store operations can produce,
  the cursor is at least \<open>-1\<close> and less than the length of the history, it is \<open>-1\<close>
  exactly when the history is empty, and it is a valid index when the history is not.
\<close>

theorem cursor_bounds_reachable:
  "store_run ops roomId = Some room \<Longrightarrow>
     - 1 \<le> historyIndex room \<and> historyIndex room < int (length (history room)) \<and>
     (historyIndex room = - 1 \<longleftrightarrow> length (history room) = 0) \<and>
     (history room \<noteq> [] \<longrightarrow> 0 \<le> historyIndex room)"
  using all_rooms_get [OF cursor_ok_run, of ops roomId room] by (auto simp: cursor_ok_def)

theorem cursor_bounds_reachable_witness:
  "store_run [SetCanvasState ''r1'' (JStr ''A'') 0 1, Undo ''r1'', ClearCanvas ''r1'' 2 3,
              AddDrawing ''r1'' [] 4 ''4_0'' 5, Redo ''r1''] ''r1'' =
     Some \<lparr>canvasState = JNull,
            drawings = [JObj [(''id'', JStr ''4_0''), (''timestamp'', JNum 5)]],
            history = [\<lparr>state = JStr ''A'', timestamp = 1, type = None\<rparr>,
                       \<lparr>state = JNull, timestamp = 3, type = Some ''clear''\<rparr>],
            historyIndex = 1, createdAt = 0\<rparr> \<and>
   - 1 \<le> (1::int) \<and> (1::int) < int (length [1::nat, 3]) \<and>
   ((1::int) = - 1 \<longleftrightarrow> length [1::nat, 3] = 0)"
proof -
  have r: "store_run [SetCanvasState ''r1'' (JStr ''A'') 0 1, Undo ''r1'', ClearCanvas ''r1'' 2 3,
              AddDrawing ''r1'' [] 4 ''4_0'' 5, Redo ''r1''] ''r1'' =
     Some \<lparr>canvasState = JNull,
            drawings = [JObj [(''id'', JStr ''4_0''), (''timestamp'', JNum 5)]],
            history = [\<lparr>state = JStr ''A'', timestamp = 1, type = None\<rparr>,
                       \<lparr>state = JNull, timestamp = 3, type = Some ''clear''\<rparr>],
            historyIndex = 1, createdAt = 0\<rparr>"
    by (simp add: store_run_def setCanvasState_def clearCanvas_def addDrawing_def undo_def
          redo_def initRoom_def Let_def slice_to_def js_index_def maxHistorySize_def)
  show ?thesis using cursor_bounds_reachable [OF r] r by simp
qed

section \<open>Undo and redo\<close>

lemma undo_bounded:
  assumes "m k = Some r" and "historyIndex r < int (length (history r))"
  shows "undo m k =
     (if 0 < historyIndex r
      then (Inr (state (history r ! nat (historyIndex r - 1))),
            m(k \<mapsto> r\<lparr>historyIndex := historyIndex r - 1,
                      canvasState := state (history r ! nat (historyIndex r - 1))\<rparr>))
      else (Inr JNull, m))"
  using assms by (simp add: undo_def js_index_def Let_def)

lemma redo_bounded:
  assumes "m k = Some r" and "- 1 \<le> historyIndex r"
  shows "redo m k =
     (if historyIndex r < int (length (history r)) - 1
      then (Inr (state (history r ! nat (historyIndex r + 1))),
            m(k \<mapsto> r\<lparr>historyIndex := historyIndex r + 1,
                      canvasState := state (history r ! nat (historyIndex r + 1))\<rparr>))
      else (Inr JNull, m))"
  using assms by (simp add: redo_def js_index_def Let_def)

text \<open>
  C7. On a manager produced by store operations: for a room that does not exist, undo and
  redo return null and change nothing. For a room that exists, undo with the cursor above
  0 moves the cursor down by one, makes the entry now at the cursor the current snapshot
  and returns it, and otherwise returns null and changes nothing; redo with the cursor
  below the last index moves it up by one, makes the entry now at the cursor the current
  snapshot and returns it, and otherwise returns null and changes nothing.
\<close>

theorem undo_redo_contract:
  "(store_run ops roomId = None \<longrightarrow>
      undo (store_run ops) roomId = (Inr JNull, store_run ops) \<and>
      redo (store_run ops) roomId = (Inr JNull, store_run ops)) \<and>
   (\<forall>room. store_run ops roomId = Some room \<longrightarrow>
      undo (store_run ops) roomId =
        (if 0 < historyIndex room
         then (Inr (state (history room ! nat (historyIndex room - 1))),
               (store_run ops)(roomId \<mapsto>
                  room\<lparr>historyIndex := historyIndex room - 1,
                       canvasState := state (history room ! nat (historyIndex room - 1))\<rparr>))
         else (Inr JNull, store_run ops)) \<and>
      redo (store_run ops) roomId =
        (if historyIndex room < int (length (history room)) - 1
         then (Inr (state (history room ! nat (historyIndex room + 1))),
               (store_run ops)(roomId \<mapsto>
                  room\<lparr>historyIndex := historyIndex room + 1,
                       canvasState := state (history room ! nat (historyIndex room + 1))\<rparr>))
         else (Inr JNull, store_run ops)))"
proof (intro conjI allI impI)
  assume "store_run ops roomId = None"
  then show "undo (store_run ops) roomId = (Inr JNull, store_run ops)"
    and "redo (store_run ops) roomId = (Inr JNull, store_run ops)"
    by (simp_all add: undo_def redo_def)
next
  fix room
  assume r: "store_run ops roomId = Some room"
  from all_rooms_get [OF cursor_ok_run r]
  have b: "- 1 \<le> historyIndex room" "historyIndex room < int (length (history room))"
    by (simp_all add: cursor_ok_def)
  show "undo (store_run ops) roomId =
        (if 0 < historyIndex room
         then (Inr (state (history room ! nat (historyIndex room - 1))),
               (store_run ops)(roomId \<mapsto>
                  room\<lparr>historyIndex := historyIndex room - 1,
                       canvasState := state (history room ! nat (historyIndex room - 1))\<rparr>))
         else (Inr JNull, store_run ops))"
    using r b(2) by (rule undo_bounded [where m = "store_run ops"])
  show "redo (store_run ops) roomId =
        (if historyIndex room < int (length (history room)) - 1
         then (Inr (state (history room ! nat (historyIndex room + 1))),
               (store_run ops)(roomId \<mapsto>
                  room\<lparr>historyIndex := historyIndex room + 1,
                       canvasState := state (history room ! nat (historyIndex room + 1))\<rparr>))
         else (Inr JNull, store_run ops))"
    using r b(1) by (rule redo_bounded [where m = "store_run ops"])
qed

lemma run_two_commits:
  "store_run [SetCanvasState ''r1'' (JStr ''A'') 0 1, SetCanvasState ''r1'' (JStr ''B'') 2 3] =
     [''r1'' \<mapsto> two_entries]"
  by (simp add: store_run_def setCanvasState_def initRoom_def Let_def slice_to_def
        maxHistorySize_def two_entries_def)

lemma run_two_commits_undo:
  "store_run [SetCanvasState ''r1'' (JStr ''A'') 0 1, SetCanvasState ''r1'' (JStr ''B'') 2 3,
              Undo ''r1''] =
     [''r1'' \<mapsto> two_entries\<lparr>historyIndex := 0, canvasState := JStr ''A''\<rparr>]"
  by (simp add: store_run_def setCanvasState_def undo_def initRoom_def Let_def slice_to_def
        js_index_def maxHistorySize_def two_entries_def)

theorem undo_redo_contract_witness:
  "undo (store_run []) ''r1'' = (Inr JNull, Map.empty) \<and>
   redo (store_run []) ''r1'' = (Inr JNull, Map.empty) \<and>
   undo [''r1'' \<mapsto> two_entries] ''r1'' =
     (Inr (JStr ''A''), [''r1'' \<mapsto> two_entries\<lparr>historyIndex := 0, canvasState := JStr ''A''\<rparr>]) \<and>
   redo [''r1'' \<mapsto> two_entries] ''r1'' = (Inr JNull, [''r1'' \<mapsto> two_entries]) \<and>
   redo [''r1'' \<mapsto> two_entries\<lparr>historyIndex := 0, canvasState := JStr ''A''\<rparr>] ''r1'' =
     (Inr (JStr ''B''), [''r1'' \<mapsto> two_entries\<lparr>historyIndex := 1, canvasState := JStr ''B''\<rparr>]) \<and>
   undo [''r1'' \<mapsto> two_entries\<lparr>historyIndex := 0, canvasState := JStr ''A''\<rparr>] ''r1'' =
     (Inr JNull, [''r1'' \<mapsto> two_entries\<lparr>historyIndex := 0, canvasState := JStr ''A''\<rparr>])"
  using undo_redo_contract [of "[]" "''r1''"]
    undo_redo_contract
      [of "[SetCanvasState ''r1'' (JStr ''A'') 0 1, SetCanvasState ''r1'' (JStr ''B'') 2 3]"
          "''r1''"]
    undo_redo_contract
      [of "[SetCanvasState ''r1'' (JStr ''A'') 0 1, SetCanvasState ''r1'' (JStr ''B'') 2 3,
            Undo ''r1'']" "''r1''"]
  unfolding run_two_commits run_two_commits_undo
  by (simp add: two_entries_def store_run_def)

text \<open>
  C10. Undo and redo change nothing but the cursor and the current snapshot: whatever the
  manager and whichever room is looked at, each room is the same before and after once
  those two fields are masked; in particular the history and the operation log of every
  room are the same, and no room appears or disappears.
\<close>

theorem undo_redo_frame:
  "map_option (\<lambda>room. room\<lparr>historyIndex := 0, canvasState := JNull\<rparr>) (snd (undo m roomId) r) =
     map_option (\<lambda>room. room\<lparr>historyIndex := 0, canvasState := JNull\<rparr>) (m r) \<and>
   map_option (\<lambda>room. room\<lparr>historyIndex := 0, canvasState := JNull\<rparr>) (snd (redo m roomId) r) =
     map_option (\<lambda>room. room\<lparr>historyIndex := 0, canvasState := JNull\<rparr>) (m r) \<and>
   map_option history (snd (undo m roomId) r) = map_option history (m r) \<and>
   map_option drawings (snd (undo m roomId) r) = map_option drawings (m r) \<and>
   map_option history (snd (redo m roomId) r) = map_option history (m r) \<and>
   map_option drawings (snd (redo m roomId) r) = map_option drawings (m r)"
  by (simp add: undo_def redo_def Let_def split: option.splits)

section \<open>Clearing the canvas\<close>

text \<open>
  What \<open>setCanvasState\<close> guarantees on its own: it keeps every history within
  \<open>maxHistorySize\<close>, and it leaves the cursor on the entry it has just committed.
\<close>

lemma setCanvasState_cap:
  assumes "all_rooms (\<lambda>r. length (history r) \<le> maxHistorySize) m"
  shows "all_rooms (\<lambda>r. length (history r) \<le> maxHistorySize) (setCanvasState m k v t0 t1)"
proof -
  obtain r m1 where i: "initRoom m k t0 = (r, m1)" by (cases "initRoom m k t0")
  with all_rooms_initRoom [OF assms, where k = k and t = t0]
  have "length (history r) \<le> maxHistorySize"
    and "all_rooms (\<lambda>r. length (history r) \<le> maxHistorySize) m1"
    by simp_all
  then show ?thesis
    by (auto simp: setCanvasState_def i Let_def slice_to_def intro!: all_rooms_upd
          split: prod.splits if_splits)
qed

lemma setCanvasState_current:
  assumes "all_rooms cursor_ok m"
  shows "\<exists>r. setCanvasState m k v t0 t1 k = Some r \<and> canvasState r = v \<and>
           map_option state (js_index (history r) (historyIndex r)) = Some v"
proof -
  obtain r m1 where i: "initRoom m k t0 = (r, m1)" by (cases "initRoom m k t0")
  with all_rooms_initRoom [OF assms cursor_ok_fresh, where k = k and t = t0]
  have "cursor_ok r" by simp
  then show ?thesis
    by (auto simp: setCanvasState_def i Let_def slice_to_def js_index_def cursor_ok_def
          maxHistorySize_def nth_append nth_tl split: prod.splits if_splits)
qed

text \<open>
  C2. One hundred commits followed by a clear: the history then holds 101 entries, with the
  cursor at 100. \<open>clearCanvas\<close> appends without the cap that \<open>setCanvasState\<close> applies.
\<close>

theorem clearCanvas_exceeds_cap:
  "map_option (\<lambda>room. (length (history room), historyIndex room))
     (store_run (replicate 100 (SetCanvasState ''r1'' (JStr ''A'') 0 1) @ [ClearCanvas ''r1'' 2 3])
        ''r1'') = Some (101, 100)"
  by code_simp

text \<open>
  C3. Commit \<open>A\<close>, commit \<open>B\<close>, undo, clear: the current snapshot is null, while the entry
  at the cursor is the commit of \<open>B\<close>, which is not a clear marker.
\<close>

theorem clearCanvas_breaks_current_snapshot:
  "map_option (\<lambda>room. (canvasState room, js_index (history room) (historyIndex room)))
     (store_run [SetCanvasState ''r1'' (JStr ''A'') 0 1, SetCanvasState ''r1'' (JStr ''B'') 2 3,
                 Undo ''r1'', ClearCanvas ''r1'' 4 5] ''r1'') =
     Some (JNull, Some \<lparr>state = JStr ''B'', timestamp = 3, type = None\<rparr>)"
  by (simp add: store_run_def setCanvasState_def clearCanvas_def undo_def initRoom_def Let_def
        slice_to_def js_index_def maxHistorySize_def)

text \<open>
  C4. A clear on a room whose cursor is at 0 of two entries: the current snapshot becomes
  null, the operation log is emptied and a clear marker is appended, but the entry after
  the cursor is kept and the cursor, moved up by one, points at it and not at the marker.
\<close>

theorem clearCanvas_keeps_redo_branch:
  "clearCanvas [''r1'' \<mapsto> two_entries\<lparr>historyIndex := 0, canvasState := JStr ''A''\<rparr>] ''r1'' 4 5 =
     (True,
      [''r1'' \<mapsto>
         \<lparr>canvasState = JNull, drawings = [],
          history = [\<lparr>state = JStr ''A'', timestamp = 1, type = None\<rparr>,
                     \<lparr>state = JStr ''B'', timestamp = 3, type = None\<rparr>,
                     \<lparr>state = JNull, timestamp = 5, type = Some ''clear''\<rparr>],
          historyIndex = 1, createdAt = 0\<rparr>])"
  by (simp add: clearCanvas_def initRoom_def two_entries_def)

section \<open>Leaving a room\<close>

lemma map_of_map_delete:
  "map_of (map_delete ps k) k' = (if k' = k then None else map_of ps k')"
  by (induction ps) (auto simp: map_delete_def)

text \<open>
  C9. \<open>removeUser\<close> returns whether the user was a member of the room; afterwards the
  user is not a member, the other members and the other rooms are as before, and no room
  appears or disappears. When it returns false (room absent or user absent) the registry
  is unchanged. Called a second time on the result, it returns false and leaves the
  registry as it is.
\<close>

theorem removeUser_contract:
  "(case removeUser m roomId userId of
      (removed, m') \<Rightarrow>
        removed = hasUser m roomId userId \<and>
        \<not> hasUser m' roomId userId \<and>
        (\<not> removed \<longrightarrow> m' = m) \<and>
        (\<forall>u. u \<noteq> userId \<longrightarrow> getUser m' roomId u = getUser m roomId u) \<and>
        (\<forall>k. k \<noteq> roomId \<longrightarrow> m' k = m k) \<and>
        (m' roomId = None \<longleftrightarrow> m roomId = None) \<and>
        removeUser m' roomId userId = (False, m'))"
  by (auto simp: removeUser_def hasUser_def getUser_def map_of_map_delete split: option.splits)

theorem removeUser_contract_witness:
  "removeUser two_users ''default'' ''s1'' =
     (True, [''default'' \<mapsto> \<lparr>room_id = ''default'', users = [(''s2'', bob)], room_createdAt = 0\<rparr>]) \<and>
   hasUser two_users ''default'' ''s1'' \<and>
   getUser [''default'' \<mapsto> \<lparr>room_id = ''default'', users = [(''s2'', bob)], room_createdAt = 0\<rparr>]
     ''default'' ''s2'' = Some bob \<and>
   removeUser [''default'' \<mapsto> \<lparr>room_id = ''default'', users = [(''s2'', bob)], room_createdAt = 0\<rparr>]
     ''default'' ''s1'' =
     (False, [''default'' \<mapsto> \<lparr>room_id = ''default'', users = [(''s2'', bob)], room_createdAt = 0\<rparr>]) \<and>
   removeUser two_users ''lobby'' ''s1'' = (False, two_users)"
proof -
  have r: "removeUser two_users ''default'' ''s1'' =
     (True, [''default'' \<mapsto> \<lparr>room_id = ''default'', users = [(''s2'', bob)], room_createdAt = 0\<rparr>])"
    by (simp add: removeUser_def two_users_def map_delete_def)
  have a: "two_users ''lobby'' = None"
    by (simp add: two_users_def)
  show ?thesis
    using removeUser_contract [of two_users "''default''" "''s1''"]
      removeUser_contract [of two_users "''lobby''" "''s1''"]
    by (simp add: r) (simp add: two_users_def getUser_def hasUser_def removeUser_def a)
qed

section \<open>Fan-out\<close>

lemma fanout_single: "fanout (e, s, [(t, n, a)]) = recipients (joined s) t"
  by (simp add: fanout_def)

lemma fanout_none: "fanout (e, s, []) = {}"
  by (simp add: fanout_def)

lemma get_prop_defined:
  "data \<noteq> JUndefined \<Longrightarrow> data \<noteq> JNull \<Longrightarrow> \<exists>v. get_prop data k = Inr v"
  by (cases data) (auto split: option.splits)

lemma two_clients_eq:
  "two_clients =
     \<lparr>roomManager = two_users,
      drawingStateManager =
        [''default'' \<mapsto> \<lparr>canvasState = JNull, drawings = [], history = [], historyIndex = - 1,
                          createdAt = 0\<rparr>],
      colorIndex = 2,
      joined = (\<lambda>r. {})(''s1'' := {''s1''}, ''default'' := {''s1''}, ''s2'' := {''s2''},
                 ''default'' := {''s2'', ''s1''})\<rparr>"
  by (simp add: two_clients_def on_connection_def init_server_def addUser_def getRoom_def
        createRoom_def getCanvasState_def initRoom_def USER_COLORS_def conn_roomId_def Let_def
        two_users_def alice_def bob_def)

lemma two_clients_joined: "joined two_clients conn_roomId = {''s1'', ''s2''}"
  by (auto simp: two_clients_eq conn_roomId_def)

text \<open>
  C8, as stated, fails for undo and redo: an undo sent without a payload by \<open>s1\<close>, which
  is joined to the room together with \<open>s2\<close>, stops at the read of \<open>data.canvasState\<close>
  before anything is emitted, so the sockets reached are not the whole room and the sender
  is not among them.
\<close>

theorem undo_without_payload_reaches_nobody:
  "''s1'' \<in> joined two_clients conn_roomId \<and>
   on_undo two_clients ''s1'' JUndefined 2 3 = (Some TypeError, two_clients, []) \<and>
   fanout (on_undo two_clients ''s1'' JUndefined 2 3) = {} \<and>
   ''s1'' \<notin> fanout (on_undo two_clients ''s1'' JUndefined 2 3)"
  by (simp add: on_undo_def fanout_none two_clients_joined)

text \<open>
  C8, amended. The handlers of draw-start, draw-move, draw-end and cursor-move never deliver
  to the originating socket, whatever the payload; for a payload that is not undefined or
  null they reach exactly the sockets joined to the room other than the sender. Every
  emission of the undo and redo handlers is addressed to the whole room; for a payload that
  is not undefined or null the sockets reached are exactly those joined to the room, as
  they are for clear-canvas with any input; the originating socket, being joined to the
  room, is among them.
\<close>

theorem fanout_exclusion:
  "userId \<notin> fanout (on_draw_start s userId data now) \<and>
   userId \<notin> fanout (on_draw_move s userId data now) \<and>
   userId \<notin> fanout (on_draw_end s userId data now0 now1 now2 ident now3) \<and>
   userId \<notin> fanout (on_cursor_move s userId data) \<and>
   (\<forall>em \<in> set (snd (snd (on_undo s userId data now0 now1))). fst em = ToRoom conn_roomId) \<and>
   (\<forall>em \<in> set (snd (snd (on_redo s userId data now0 now1))). fst em = ToRoom conn_roomId) \<and>
   (data \<noteq> JUndefined \<and> data \<noteq> JNull \<longrightarrow>
      fanout (on_draw_start s userId data now) = joined s conn_roomId - {userId} \<and>
      fanout (on_draw_move s userId data now) = joined s conn_roomId - {userId} \<and>
      fanout (on_draw_end s userId data now0 now1 now2 ident now3) =
        joined s conn_roomId - {userId} \<and>
      fanout (on_cursor_move s userId data) = joined s conn_roomId - {userId} \<and>
      fanout (on_undo s userId data now0 now1) = joined s conn_roomId \<and>
      fanout (on_redo s userId data now0 now1) = joined s conn_roomId) \<and>
   fanout (on_clear_canvas s userId now0 now1) = joined s conn_roomId \<and>
   (userId \<in> joined s conn_roomId \<longrightarrow>
      userId \<in> fanout (on_clear_canvas s userId now0 now1) \<and>
      (data \<noteq> JUndefined \<and> data \<noteq> JNull \<longrightarrow>
         userId \<in> fanout (on_undo s userId data now0 now1) \<and>
         userId \<in> fanout (on_redo s userId data now0 now1)))"
proof -
  have a: "userId \<notin> fanout (on_draw_start s userId data now)"
    by (simp add: on_draw_start_def fanout_single fanout_none split: sum.splits)
  have b: "userId \<notin> fanout (on_draw_move s userId data now)"
    by (simp add: on_draw_move_def fanout_single fanout_none split: sum.splits)
  have c: "userId \<notin> fanout (on_draw_end s userId data now0 now1 now2 ident now3)"
    by (simp add: on_draw_end_def fanout_single fanout_none split: sum.splits prod.splits)
  have d: "userId \<notin> fanout (on_cursor_move s userId data)"
    by (simp add: on_cursor_move_def fanout_single fanout_none split: sum.splits)
  have e: "\<forall>em \<in> set (snd (snd (on_undo s userId data now0 now1))). fst em = ToRoom conn_roomId"
    by (simp add: on_undo_def Let_def split: sum.splits)
  have f: "\<forall>em \<in> set (snd (snd (on_redo s userId data now0 now1))). fst em = ToRoom conn_roomId"
    by (simp add: on_redo_def Let_def split: sum.splits)
  have g: "fanout (on_undo s userId data now0 now1) = joined s conn_roomId"
    if "data \<noteq> JUndefined" "data \<noteq> JNull"
    using get_prop_defined [OF that, of "''canvasState''"]
    by (auto simp: on_undo_def Let_def fanout_single)
  have h: "fanout (on_redo s userId data now0 now1) = joined s conn_roomId"
    if "data \<noteq> JUndefined" "data \<noteq> JNull"
    using get_prop_defined [OF that, of "''canvasState''"]
    by (auto simp: on_redo_def Let_def fanout_single)
  have i: "fanout (on_clear_canvas s userId now0 now1) = joined s conn_roomId"
    by (simp add: on_clear_canvas_def fanout_single split: prod.splits)
  have j: "fanout (on_draw_start s userId data now) = joined s conn_roomId - {userId}"
    if "data \<noteq> JUndefined" "data \<noteq> JNull"
    using get_prop_defined [OF that, of "''point''"]
    by (auto simp: on_draw_start_def fanout_single)
  have k: "fanout (on_draw_move s userId data now) = joined s conn_roomId - {userId}"
    if "data \<noteq> JUndefined" "data \<noteq> JNull"
    using get_prop_defined [OF that, of "''points''"]
    by (auto simp: on_draw_move_def fanout_single)
  have l: "fanout (on_draw_end s userId data now0 now1 now2 ident now3) =
      joined s conn_roomId - {userId}"
    if "data \<noteq> JUndefined" "data \<noteq> JNull"
    using get_prop_defined [OF that, of "''path''"]
    by (auto simp: on_draw_end_def fanout_single split: prod.splits)
  have m: "fanout (on_cursor_move s userId data) = joined s conn_roomId - {userId}"
    if "data \<noteq> JUndefined" "data \<noteq> JNull"
    using get_prop_defined [OF that, of "''x''"] get_prop_defined [OF that, of "''y''"]
    by (auto simp: on_cursor_move_def fanout_single)
  show ?thesis using a b c d e f g h i j k l m by simp
qed

theorem fanout_exclusion_witness:
  "''s1'' \<in> joined two_clients conn_roomId \<and>
   fanout (on_draw_end two_clients ''s1'' (JObj [(''path'', JArr [])]) 2 3 4 ''4_0'' 5) = {''s2''} \<and>
   ''s1'' \<notin> fanout (on_draw_end two_clients ''s1'' (JObj [(''path'', JArr [])]) 2 3 4 ''4_0'' 5) \<and>
   snd (snd (on_undo two_clients ''s1'' (JObj [(''canvasState'', JStr ''A'')]) 3 4)) =
     [(ToRoom conn_roomId, ''undo'',
       [JObj [(''userId'', JStr ''s1''), (''canvasState'', JStr ''A'')]])] \<and>
   fanout (on_undo two_clients ''s1'' (JObj [(''canvasState'', JStr ''A'')]) 3 4) = {''s1'', ''s2''} \<and>
   ''s1'' \<in> fanout (on_undo two_clients ''s1'' (JObj [(''canvasState'', JStr ''A'')]) 3 4) \<and>
   ''s1'' \<in> fanout (on_clear_canvas two_clients ''s1'' 3 4)"
proof -
  have e: "fanout (on_draw_end two_clients ''s1'' (JObj [(''path'', JArr [])]) 2 3 4 ''4_0'' 5) = {''s2''}"
    by (auto simp: on_draw_end_def fanout_single two_clients_joined split: prod.splits)
  have u: "snd (snd (on_undo two_clients ''s1'' (JObj [(''canvasState'', JStr ''A'')]) 3 4)) =
     [(ToRoom conn_roomId, ''undo'',
       [JObj [(''userId'', JStr ''s1''), (''canvasState'', JStr ''A'')]])]"
    by (simp add: on_undo_def)
  show ?thesis
    using fanout_exclusion [where s = two_clients and userId = "''s1''"
        and data = "JObj [(''canvasState'', JStr ''A'')]" and ?now0.0 = 3 and ?now1.0 = 4]
      fanout_exclusion [where s = two_clients and userId = "''s1''"
        and data = "JObj [(''path'', JArr [])]" and ?now0.0 = 2 and ?now1.0 = 3 and ?now2.0 = 4
        and ident = "''4_0''" and ?now3.0 = 5]
    by (simp add: e u two_clients_joined)
qed

section \<open>Events with a missing field or of the wrong shape\<close>





end
